theory Spec2Isabelle
  imports Complex_Main
begin

section \<open>The personal finance ledger of finance_ledger.py\<close>

text \<open>
  The ledger class \<^verbatim>\<open>PersonalFinanceLedger\<close> keeps a list of transaction dictionaries
  and a counter for the next id. Its methods are embedded as functions that take the
  object's state and return the result together with the state after the call; a raised
  exception is the \<open>Inl\<close> branch of the result, and the state returned with it is the
  state at the moment of the raise.

  The list a ledger is constructed with, the list \<^verbatim>\<open>get_transactions\<close> returns and the
  dictionary \<^verbatim>\<open>add_transaction\<close> returns are the ledger's own objects in Python. A caller
  that changes them afterwards is outside this model: a ledger changes through its
  methods only.
\<close>

subsection \<open>Python's float\<close>

text \<open>
  A \<^verbatim>\<open>float\<close> is an IEEE 754 double: a finite value, one of the two infinities, or NaN.
  A finite double is given by the real number it stands for. The two zeros are one value
  here: Python compares them equal, and no method of the ledger tells them apart.
  Every operation below rounds its exact result to a double (\<open>round_double\<close>), so the
  operations return doubles when they are given doubles. The type admits \<open>Finite r\<close> for
  every real \<open>r\<close>: what is proved for every \<open>pyfloat\<close> holds for every double.
  Equality of two \<open>pyfloat\<close> values is identity of the values; Python's \<^verbatim>\<open>==\<close>, which
  is false on NaN, is not used by the ledger.
\<close>

datatype pyfloat = Finite real | PosInf | NegInf | NaN

text \<open>The integer nearest to \<open>x\<close>; a tie goes to the even one.\<close>

definition round_half_even :: "real \<Rightarrow> int" where
  "round_half_even x =
     (let f = \<lfloor>x\<rfloor>; d = x - of_int f
      in if d < 1 / 2 then f
         else if 1 / 2 < d then f + 1
         else if even f then f else f + 1)"

text \<open>
  The binary exponent of a positive real: the \<open>e\<close> with \<open>2 ^ e \<le> x < 2 ^ (e + 1)\<close>,
  found by doubling or halving \<open>x\<close> until it is in \<open>[1, 2)\<close>.
\<close>

function binary_exponent :: "real \<Rightarrow> int" where
  "binary_exponent x =
     (if x \<le> 0 then 0
      else if x < 1 then binary_exponent (2 * x) - 1
      else if 2 \<le> x then binary_exponent (x / 2) + 1
      else 0)"
  by pat_completeness auto
termination
proof (relation "measure (\<lambda>x. nat \<bar>\<lfloor>log 2 x\<rfloor>\<bar>)")
  show "wf (measure (\<lambda>x. nat \<bar>\<lfloor>log 2 x\<rfloor>\<bar>))" by simp
next
  fix x :: real
  assume "\<not> x \<le> 0" "x < 1"
  then have pos: "0 < x" by simp
  have "log 2 (2 * x) = 1 + log 2 x"
    using pos by (simp add: log_mult)
  then have f: "\<lfloor>log 2 (2 * x)\<rfloor> = 1 + \<lfloor>log 2 x\<rfloor>" by simp
  have "log 2 x < 0" using pos \<open>x < 1\<close> by simp
  then have lt: "\<lfloor>log 2 x\<rfloor> < 0" by linarith
  have "nat \<bar>\<lfloor>log 2 (2 * x)\<rfloor>\<bar> < nat \<bar>\<lfloor>log 2 x\<rfloor>\<bar>"
    unfolding f using lt by linarith
  then show "(2 * x, x) \<in> measure (\<lambda>x. nat \<bar>\<lfloor>log 2 x\<rfloor>\<bar>)"
    by (simp only: in_measure)
next
  fix x :: real
  assume "\<not> x \<le> 0" "\<not> x < 1" "2 \<le> x"
  then have pos: "0 < x" by simp
  have "log 2 (x / 2) = log 2 x - 1"
    using pos by (simp add: log_divide)
  then have f: "\<lfloor>log 2 (x / 2)\<rfloor> = \<lfloor>log 2 x\<rfloor> - 1" by simp
  have "1 \<le> log 2 x" using \<open>2 \<le> x\<close> by (simp add: le_log_iff)
  then have ge: "1 \<le> \<lfloor>log 2 x\<rfloor>" by linarith
  have "nat \<bar>\<lfloor>log 2 (x / 2)\<rfloor>\<bar> < nat \<bar>\<lfloor>log 2 x\<rfloor>\<bar>"
    unfolding f using ge by linarith
  then show "(x / 2, x) \<in> measure (\<lambda>x. nat \<bar>\<lfloor>log 2 x\<rfloor>\<bar>)"
    by (simp only: in_measure)
qed

text \<open>
  Rounding a real to the nearest double, a tie going to the even significand (the
  rounding of IEEE 754 that Python uses). The doubles around \<open>x\<close> are the multiples of
  \<open>q = 2 ^ (e - 52)\<close>, where \<open>e\<close> is the binary exponent of \<open>\<bar>x\<bar>\<close>, and not less than -1022
  (below \<open>2 ^ - 1022\<close> the doubles are the multiples of \<open>2 ^ - 1074\<close>). A result of
  magnitude \<open>2 ^ 1024\<close> or more is an infinity.
\<close>

definition round_double :: "real \<Rightarrow> pyfloat" where
  "round_double x =
     (let e = max (binary_exponent \<bar>x\<bar>) (- 1022);
          q = 2 powi (e - 52);
          y = of_int (round_half_even (x / q)) * q
      in if 2 ^ 1024 \<le> \<bar>y\<bar> then (if 0 < x then PosInf else NegInf) else Finite y)"

text \<open>\<^verbatim>\<open>x + y\<close> and \<open>x - y\<close> on floats.\<close>

fun float_add :: "pyfloat \<Rightarrow> pyfloat \<Rightarrow> pyfloat" where
  "float_add NaN y = NaN"
| "float_add x NaN = NaN"
| "float_add PosInf NegInf = NaN"
| "float_add NegInf PosInf = NaN"
| "float_add PosInf y = PosInf"
| "float_add x PosInf = PosInf"
| "float_add NegInf y = NegInf"
| "float_add x NegInf = NegInf"
| "float_add (Finite a) (Finite b) = round_double (a + b)"

fun float_sub :: "pyfloat \<Rightarrow> pyfloat \<Rightarrow> pyfloat" where
  "float_sub NaN y = NaN"
| "float_sub x NaN = NaN"
| "float_sub PosInf PosInf = NaN"
| "float_sub NegInf NegInf = NaN"
| "float_sub PosInf y = PosInf"
| "float_sub x PosInf = NegInf"
| "float_sub NegInf y = NegInf"
| "float_sub x NegInf = PosInf"
| "float_sub (Finite a) (Finite b) = round_double (a - b)"

text \<open>\<^verbatim>\<open>x <= 0\<close> on a float: false for NaN.\<close>

fun float_le_zero :: "pyfloat \<Rightarrow> bool" where
  "float_le_zero (Finite r) = (r \<le> 0)"
| "float_le_zero NegInf = True"
| "float_le_zero PosInf = False"
| "float_le_zero NaN = False"

text \<open>
  \<^verbatim>\<open>round(x, ndigits)\<close> on a float, for \<open>ndigits \<ge> 0\<close>: an infinity or NaN is returned as
  it is; a finite \<open>x\<close> is rounded to the nearest multiple of \<open>10 ^ - ndigits\<close>, a tie going
  to the even digit, and that decimal is rounded to a double.
\<close>

fun py_round :: "pyfloat \<Rightarrow> nat \<Rightarrow> pyfloat" where
  "py_round (Finite x) ndigits =
     round_double (of_int (round_half_even (x * 10 ^ ndigits)) / 10 ^ ndigits)"
| "py_round PosInf ndigits = PosInf"
| "py_round NegInf ndigits = NegInf"
| "py_round NaN ndigits = NaN"

subsection \<open>Values, errors, transactions\<close>

text \<open>
  The values a transaction dictionary holds: the alias
  \<^verbatim>\<open>Transaction = Dict[str, Union[str, float]]\<close>, and \<^verbatim>\<open>int\<close>, which
  \<^verbatim>\<open>add_transaction\<close> stores under \<^verbatim>\<open>"id"\<close> and which a caller may give where a float is
  expected.
\<close>

datatype pyval = PInt int | PFloat pyfloat | PStr string

datatype error = ValueError string | TypeError string | OverflowError string

type_synonym Transaction = "string \<rightharpoonup> pyval"

type_synonym Ledger = "Transaction list"

record PersonalFinanceLedger =
  transactions :: Ledger
  transaction_id_counter :: int

text \<open>
  The result of \<^verbatim>\<open>get_summary\<close>: a dictionary with exactly the three keys
  \<^verbatim>\<open>total_income\<close>, \<^verbatim>\<open>total_expense\<close> and \<^verbatim>\<open>net_balance\<close>.
\<close>

record summary =
  total_income :: pyfloat
  total_expense :: pyfloat
  net_balance :: pyfloat

subsection \<open>The built-ins the methods call\<close>

text \<open>
  The expression \<^verbatim>\<open>amount <= 0\<close>: the comparison of an int or of a float with zero, and
  a \<^verbatim>\<open>TypeError\<close> on a string (its message begins and ends with the quote character
  \<open>CHR 0x27\<close>).
\<close>

fun le_zero :: "pyval \<Rightarrow> error + bool" where
  "le_zero (PInt i) = Inr (i \<le> 0)"
| "le_zero (PFloat f) = Inr (float_le_zero f)"
| "le_zero (PStr s) =
     Inl (TypeError
       (CHR 0x27 # ''<=' not supported between instances of 'str' and 'int'' @ [CHR 0x27]))"

text \<open>
  \<^verbatim>\<open>float(v)\<close>: the identity on a float; the nearest double of an int, and
  \<^verbatim>\<open>OverflowError\<close> when the int is beyond the range of the doubles; the parse of a
  string, which raises \<^verbatim>\<open>ValueError\<close> on a string that is no number. The parser is
  Python's, not this repository's: it is the parameter \<open>str_float\<close>, and \<open>None\<close> is
  its \<^verbatim>\<open>ValueError\<close>, whose message goes on with the string that was rejected.
\<close>

fun py_float :: "(string \<Rightarrow> pyfloat option) \<Rightarrow> pyval \<Rightarrow> error + pyfloat" where
  "py_float str_float (PFloat f) = Inr f"
| "py_float str_float (PInt i) =
     (case round_double (of_int i) of
        Finite r \<Rightarrow> Inr (Finite r)
      | _ \<Rightarrow> Inl (OverflowError ''int too large to convert to float''))"
| "py_float str_float (PStr s) =
     (case str_float s of
        None \<Rightarrow> Inl (ValueError ''could not convert string to float'')
      | Some f \<Rightarrow> Inr f)"

text \<open>
  \<^verbatim>\<open>d.get(key, dflt)\<close> of a dictionary: the value under the key, or \<open>dflt\<close> when the key
  is absent.
\<close>

definition dict_get :: "Transaction \<Rightarrow> string \<Rightarrow> pyval \<Rightarrow> pyval" where
  "dict_get d key dflt = (case d key of None \<Rightarrow> dflt | Some v \<Rightarrow> v)"

subsection \<open>The methods\<close>

text \<open>
  \<^verbatim>\<open>__init__(self, initial_transactions = None)\<close>: the given list, or a new empty one;
  the counter is 1 in both cases.
\<close>

definition ledger_init :: "Ledger option \<Rightarrow> PersonalFinanceLedger" where
  "ledger_init initial_transactions =
     \<lparr>transactions = (case initial_transactions of None \<Rightarrow> [] | Some txs \<Rightarrow> txs),
      transaction_id_counter = 1\<rparr>"

text \<open>\<^verbatim>\<open>_get_next_id\<close>: returns the counter and increments it.\<close>

definition get_next_id :: "PersonalFinanceLedger \<Rightarrow> int \<times> PersonalFinanceLedger" where
  "get_next_id self =
     (let next_id = transaction_id_counter self
      in (next_id, self\<lparr>transaction_id_counter := transaction_id_counter self + 1\<rparr>))"

text \<open>
  \<^verbatim>\<open>add_transaction(self, type, amount, description, category)\<close>. The only check is
  \<^verbatim>\<open>amount <= 0\<close>, before anything is changed, and the amount is stored as it was given.
  \<^verbatim>\<open>amount\<close> is annotated \<^verbatim>\<open>float\<close> and \<^verbatim>\<open>type\<close> is annotated
  \<^verbatim>\<open>Literal["Income", "Expense"]\<close>; Python enforces neither when the method runs. The
  amount is any value here (on a string the comparison raises), the type any string.
\<close>

definition add_transaction ::
  "PersonalFinanceLedger \<Rightarrow> string \<Rightarrow> pyval \<Rightarrow> string \<Rightarrow> string
     \<Rightarrow> (error + Transaction) \<times> PersonalFinanceLedger" where
  "add_transaction self type amount description category =
     (case le_zero amount of
        Inl e \<Rightarrow> (Inl e, self)
      | Inr nonpositive \<Rightarrow>
          if nonpositive then (Inl (ValueError ''Amount must be a positive number.''), self)
          else
            (case get_next_id self of
               (next_id, self1) \<Rightarrow>
                 (let transaction =
                        [''id'' \<mapsto> PInt next_id,
                         ''type'' \<mapsto> PStr type,
                         ''amount'' \<mapsto> amount,
                         ''description'' \<mapsto> PStr description,
                         ''category'' \<mapsto> PStr category]
                  in (Inr transaction,
                      self1\<lparr>transactions := transactions self1 @ [transaction]\<rparr>))))"

text \<open>
  The loop of \<^verbatim>\<open>get_summary\<close>. The running totals, the local variables
  \<^verbatim>\<open>total_income\<close> and \<^verbatim>\<open>total_expense\<close> of the source, are the arguments
  \<open>acc_income\<close> and \<open>acc_expense\<close> (the source's names are the fields of the result
  here). \<^verbatim>\<open>float\<close> is called inside the two branches only, so a transaction of another
  type is skipped whatever its amount is.
\<close>

fun summary_loop ::
  "(string \<Rightarrow> pyfloat option) \<Rightarrow> Ledger \<Rightarrow> pyfloat \<Rightarrow> pyfloat
     \<Rightarrow> error + pyfloat \<times> pyfloat" where
  "summary_loop str_float [] acc_income acc_expense = Inr (acc_income, acc_expense)"
| "summary_loop str_float (tx # txs) acc_income acc_expense =
     (let tx_type = dict_get tx ''type'' (PStr ''Expense'');
          tx_amount = dict_get tx ''amount'' (PFloat (Finite 0))
      in if tx_type = PStr ''Income'' then
           (case py_float str_float tx_amount of
              Inl e \<Rightarrow> Inl e
            | Inr a \<Rightarrow> summary_loop str_float txs (float_add acc_income a) acc_expense)
         else if tx_type = PStr ''Expense'' then
           (case py_float str_float tx_amount of
              Inl e \<Rightarrow> Inl e
            | Inr a \<Rightarrow> summary_loop str_float txs acc_income (float_add acc_expense a))
         else summary_loop str_float txs acc_income acc_expense)"

definition get_summary ::
  "(string \<Rightarrow> pyfloat option) \<Rightarrow> PersonalFinanceLedger
     \<Rightarrow> (error + summary) \<times> PersonalFinanceLedger" where
  "get_summary str_float self =
     (case summary_loop str_float (transactions self) (Finite 0) (Finite 0) of
        Inl e \<Rightarrow> (Inl e, self)
      | Inr (acc_income, acc_expense) \<Rightarrow>
          (let net = float_sub acc_income acc_expense
           in (Inr \<lparr>total_income = py_round acc_income 2,
                     total_expense = py_round acc_expense 2,
                     net_balance = py_round net 2\<rparr>,
               self)))"

definition get_transactions :: "PersonalFinanceLedger \<Rightarrow> Ledger \<times> PersonalFinanceLedger" where
  "get_transactions self = (transactions self, self)"

subsection \<open>Callers and the vocabulary of the specification\<close>

text \<open>
  A caller that makes one \<^verbatim>\<open>add_transaction\<close> call after the other on the same ledger
  and catches the exception of a call that fails, as \<^verbatim>\<open>cli_add_transaction\<close> does. Each
  call is the tuple of its arguments; the results are collected in the order of the calls.
\<close>

type_synonym add_call = "string \<times> pyval \<times> string \<times> string"

fun run_adds ::
  "PersonalFinanceLedger \<Rightarrow> add_call list
     \<Rightarrow> (error + Transaction) list \<times> PersonalFinanceLedger" where
  "run_adds self [] = ([], self)"
| "run_adds self ((type, amount, description, category) # calls) =
     (case add_transaction self type amount description category of
        (r, self1) \<Rightarrow>
          (case run_adds self1 calls of (rs, self2) \<Rightarrow> (r # rs, self2)))"

text \<open>The transactions that the successful calls returned, in the order of the calls.\<close>

fun returned :: "(error + Transaction) list \<Rightarrow> Transaction list" where
  "returned [] = []"
| "returned (Inl e # rs) = returned rs"
| "returned (Inr tx # rs) = tx # returned rs"

text \<open>
  The amount is greater than zero: a positive int, a positive finite float or the
  positive infinity. NaN is not, and neither is a value that is no number.
\<close>

fun is_positive :: "pyval \<Rightarrow> bool" where
  "is_positive (PInt i) = (0 < i)"
| "is_positive (PFloat (Finite r)) = (0 < r)"
| "is_positive (PFloat PosInf) = True"
| "is_positive (PFloat NegInf) = False"
| "is_positive (PFloat NaN) = False"
| "is_positive (PStr s) = False"

text \<open>
  The Transaction of the specification with the fields \<open>id\<close>, \<open>kind\<close>, \<open>amount\<close>,
  \<open>description\<close> and \<open>category\<close>, as a dictionary under the keys the code uses.
\<close>

definition transaction_of :: "int \<Rightarrow> string \<Rightarrow> pyval \<Rightarrow> string \<Rightarrow> string \<Rightarrow> Transaction" where
  "transaction_of i kind amount description category =
     [''id'' \<mapsto> PInt i, ''type'' \<mapsto> PStr kind, ''amount'' \<mapsto> amount,
      ''description'' \<mapsto> PStr description, ''category'' \<mapsto> PStr category]"

text \<open>The id of a stored transaction, when it has an integer under \<^verbatim>\<open>"id"\<close>.\<close>

definition id_of :: "Transaction \<Rightarrow> int option" where
  "id_of tx = (case tx ''id'' of Some (PInt i) \<Rightarrow> Some i | _ \<Rightarrow> None)"

text \<open>Both transactions have an id, and the first id is strictly smaller.\<close>

definition id_less :: "Transaction \<Rightarrow> Transaction \<Rightarrow> bool" where
  "id_less t u = (case (id_of t, id_of u) of (Some i, Some j) \<Rightarrow> i < j | _ \<Rightarrow> False)"

text \<open>A call raised.\<close>

definition failed :: "(error + 'a) \<times> PersonalFinanceLedger \<Rightarrow> bool" where
  "failed r = (case fst r of Inl e \<Rightarrow> True | Inr x \<Rightarrow> False)"

text \<open>
  The fields \<open>kind\<close> and \<open>amount\<close> of the specification, read from a dictionary. A
  transaction has the kind \<open>k\<close> when the string \<open>k\<close> is stored under \<^verbatim>\<open>"type"\<close>. Its
  amount, as a float, is the float stored under \<^verbatim>\<open>"amount"\<close>, or the nearest double of
  the int stored there, when there is one. A dictionary with no such number is not a
  Transaction of the specification; \<open>amount_of\<close> is 0.0 on it.
\<close>

definition has_kind :: "string \<Rightarrow> Transaction \<Rightarrow> bool" where
  "has_kind kind tx = (tx ''type'' = Some (PStr kind))"

fun float_value :: "pyval \<Rightarrow> pyfloat option" where
  "float_value (PFloat f) = Some f"
| "float_value (PInt i) =
     (case round_double (of_int i) of Finite r \<Rightarrow> Some (Finite r) | _ \<Rightarrow> None)"
| "float_value (PStr s) = None"

definition amount_of :: "Transaction \<Rightarrow> pyfloat" where
  "amount_of tx =
     (case tx ''amount'' of
        None \<Rightarrow> Finite 0
      | Some v \<Rightarrow> (case float_value v of None \<Rightarrow> Finite 0 | Some f \<Rightarrow> f))"

text \<open>
  The sum of \<open>amount\<close> over the transactions of a kind, as Python adds floats: from 0.0,
  in the order of the sequence, each addition rounded to a double.
\<close>

definition float_sum :: "string \<Rightarrow> Ledger \<Rightarrow> pyfloat" where
  "float_sum kind txs = foldl float_add (Finite 0) (map amount_of (filter (has_kind kind) txs))"

text \<open>
  The sum of \<open>amount\<close> over the transactions of a kind in exact arithmetic, for ledgers
  whose amounts are finite.
\<close>

fun real_value :: "pyfloat \<Rightarrow> real" where
  "real_value (Finite r) = r"
| "real_value PosInf = 0"
| "real_value NegInf = 0"
| "real_value NaN = 0"

definition exact_sum :: "string \<Rightarrow> Ledger \<Rightarrow> real" where
  "exact_sum kind txs = sum_list (map (real_value \<circ> amount_of) (filter (has_kind kind) txs))"

text \<open>
  A dictionary has the shape of the specification's Transaction as far as the summary
  reads it: a string under \<^verbatim>\<open>"type"\<close>, and under \<^verbatim>\<open>"amount"\<close> a float, or an int in the
  range of the doubles. The kind need not be one of the two of the enumeration.
\<close>

definition transaction_shape :: "Transaction \<Rightarrow> bool" where
  "transaction_shape tx =
     ((case tx ''type'' of Some (PStr k) \<Rightarrow> True | _ \<Rightarrow> False)
      \<and> (case tx ''amount'' of
            None \<Rightarrow> False
          | Some v \<Rightarrow> (case float_value v of None \<Rightarrow> False | Some f \<Rightarrow> True)))"

text \<open>
  What \<^verbatim>\<open>add_transaction\<close> stores: a string under \<^verbatim>\<open>"type"\<close> and an int or a float under
  \<^verbatim>\<open>"amount"\<close>.
\<close>

definition kind_and_number :: "Transaction \<Rightarrow> bool" where
  "kind_and_number tx =
     ((case tx ''type'' of Some (PStr k) \<Rightarrow> True | _ \<Rightarrow> False)
      \<and> (case tx ''amount'' of
            Some (PInt i) \<Rightarrow> True | Some (PFloat f) \<Rightarrow> True | _ \<Rightarrow> False))"



section \<open>Properties\<close>

subsection \<open>Rounding to a double\<close>

declare binary_exponent.simps [simp del]

lemma round_half_even_near: "\<bar>of_int (round_half_even x) - x\<bar> \<le> 1 / 2"
proof -
  have "of_int \<lfloor>x\<rfloor> \<le> x" "x < of_int \<lfloor>x\<rfloor> + 1" by linarith+
  then show ?thesis
    unfolding round_half_even_def Let_def by auto
qed

lemma round_half_even_of_int [simp]: "round_half_even (of_int n) = n"
  by (simp add: round_half_even_def)

lemma round_half_even_0 [simp]: "round_half_even 0 = 0"
  by (simp add: round_half_even_def)

lemma round_half_even_numeral [simp]:
  "round_half_even (numeral n) = numeral n"
  "round_half_even (- numeral n) = - numeral n"
  by (simp_all add: round_half_even_def)

lemma round_double_0 [simp]: "round_double 0 = Finite 0"
  by (simp add: round_double_def binary_exponent.simps)

lemma py_round_0 [simp]: "py_round (Finite 0) n = Finite 0"
  by simp

lemma float_add_0_0 [simp]: "float_add (Finite 0) (Finite 0) = Finite 0"
  by simp

lemma float_sub_0_0 [simp]: "float_sub (Finite 0) (Finite 0) = Finite 0"
  by simp

lemma binary_exponent_bounds:
  "0 < x \<Longrightarrow> 2 powi binary_exponent x \<le> x \<and> x < 2 powi (binary_exponent x + 1)"
proof (induction x rule: binary_exponent.induct)
  case (1 x)
  consider (small) "x < 1" | (large) "2 \<le> x" | (unit) "1 \<le> x" "x < 2"
    by linarith
  then show ?case
  proof cases
    case small
    with "1.prems" have e: "binary_exponent x = binary_exponent (2 * x) - 1"
      by (subst binary_exponent.simps) simp
    from "1.IH"(1) "1.prems" small
    have ih: "2 powi binary_exponent (2 * x) \<le> 2 * x"
      "2 * x < 2 powi (binary_exponent (2 * x) + 1)"
      by simp_all
    have p: "(2::real) powi (n + 1) = 2 * 2 powi n" for n
      by (simp add: power_int_add)
    from ih show ?thesis
      unfolding e using p [of "binary_exponent (2 * x) - 1"] p [of "binary_exponent (2 * x)"]
      by simp
  next
    case large
    with "1.prems" have e: "binary_exponent x = binary_exponent (x / 2) + 1"
      by (subst binary_exponent.simps) simp
    from "1.IH"(2) "1.prems" large
    have ih: "2 powi binary_exponent (x / 2) \<le> x / 2"
      "x / 2 < 2 powi (binary_exponent (x / 2) + 1)"
      by simp_all
    have p: "(2::real) powi (n + 1) = 2 * 2 powi n" for n
      by (simp add: power_int_add)
    from ih show ?thesis
      unfolding e using p [of "binary_exponent (x / 2) + 1"] p [of "binary_exponent (x / 2)"]
      by simp
  next
    case unit
    then have e: "binary_exponent x = 0"
      by (subst binary_exponent.simps) simp
    from unit show ?thesis unfolding e by simp
  qed
qed

text \<open>
  A double is rounded to itself: a number \<open>m * 2 ^ k\<close> with a significand \<open>m\<close> of at most
  53 bits and an exponent \<open>k\<close> from -1074 to 971.
\<close>

lemma round_double_double:
  assumes m: "\<bar>m\<bar> < 2 ^ 53" and k: "- 1074 \<le> k" "k \<le> 971"
  shows "round_double (of_int m * 2 powi k) = Finite (of_int m * 2 powi k)"
proof (cases "m = 0")
  case True
  then show ?thesis by simp
next
  case False
  let ?x = "of_int m * 2 powi k :: real"
  let ?e = "max (binary_exponent \<bar>?x\<bar>) (- 1022)"
  have less: "\<bar>?x\<bar> < 2 ^ 53 * 2 powi k"
  proof -
    have "(of_int \<bar>m\<bar> :: real) < of_int (2 ^ 53)"
      using m by (simp only: of_int_less_iff)
    then have "(of_int \<bar>m\<bar> :: real) < 2 ^ 53" by simp
    moreover have "(0::real) < 2 powi k" by simp
    ultimately have "of_int \<bar>m\<bar> * 2 powi k < (2 ^ 53 :: real) * 2 powi k"
      by (simp only: mult_strict_right_mono)
    then show ?thesis by (simp add: abs_mult)
  qed
  have e_le: "?e - 52 \<le> k"
  proof -
    from False have pos: "0 < \<bar>?x\<bar>" by simp
    have "(2 ^ 53 :: real) * 2 powi k = 2 powi (53 + k)"
      by (simp add: power_int_add)
    with less have up: "\<bar>?x\<bar> < 2 powi (53 + k)" by simp
    from binary_exponent_bounds [OF pos] have "2 powi binary_exponent \<bar>?x\<bar> \<le> \<bar>?x\<bar>"
      by simp
    with up have lt: "(2::real) powi binary_exponent \<bar>?x\<bar> < 2 powi (53 + k)"
      by linarith
    have "binary_exponent \<bar>?x\<bar> < 53 + k"
    proof (rule ccontr)
      assume "\<not> binary_exponent \<bar>?x\<bar> < 53 + k"
      then have "53 + k \<le> binary_exponent \<bar>?x\<bar>" by simp
      then have "(2::real) powi (53 + k) \<le> 2 powi binary_exponent \<bar>?x\<bar>"
        by (intro power_int_increasing) simp_all
      with lt show False by simp
    qed
    with k show ?thesis by simp
  qed
  define q :: real where "q = 2 powi (?e - 52)"
  define n where "n = nat (k - (?e - 52))"
  have kn: "k = (?e - 52) + int n"
    using e_le by (simp add: n_def)
  have pk: "(2::real) powi k = q * 2 ^ n"
    unfolding q_def by (subst kn) (simp add: power_int_add)
  have nz: "q \<noteq> 0" by (simp add: q_def)
  have xq: "?x / q = of_int (m * 2 ^ n)"
  proof -
    have "of_int m * (q * 2 ^ n) / q = of_int m * 2 ^ n"
      using nz by simp
    then show ?thesis by (simp add: pk)
  qed
  have y: "of_int (round_half_even (?x / q)) * q = ?x"
  proof -
    have "of_int (round_half_even (?x / q)) * q = ?x / q * q"
      by (simp only: xq round_half_even_of_int)
    then show ?thesis using nz by simp
  qed
  have bound: "\<not> 2 ^ 1024 \<le> \<bar>?x\<bar>"
  proof -
    have "(2::real) powi k \<le> 2 powi 971"
      using k by (intro power_int_increasing) simp_all
    then have "(2 ^ 53 :: real) * 2 powi k \<le> 2 ^ 53 * 2 powi 971"
      by (simp only: mult_le_cancel_left_pos zero_less_power zero_less_numeral)
    also have "\<dots> = 2 ^ 1024"
      by (simp add: power_int_def)
    finally show ?thesis using less by simp
  qed
  show ?thesis
    unfolding round_double_def Let_def using y bound by (simp add: q_def)
qed

text \<open>
  A finite result is a multiple of the spacing \<open>q\<close> of the doubles around \<open>x\<close>, at most
  half of \<open>q\<close> away from \<open>x\<close>.
\<close>

lemma round_double_near:
  assumes "round_double x = Finite y"
  shows "\<bar>y - x\<bar> \<le> 2 powi (max (binary_exponent \<bar>x\<bar>) (- 1022) - 52) / 2"
proof -
  define q :: real where "q = 2 powi (max (binary_exponent \<bar>x\<bar>) (- 1022) - 52)"
  have qpos: "0 < q" by (simp add: q_def)
  from assms have y: "y = of_int (round_half_even (x / q)) * q"
    by (simp add: round_double_def Let_def q_def split: if_splits)
  have "\<bar>of_int (round_half_even (x / q)) - x / q\<bar> \<le> 1 / 2"
    by (rule round_half_even_near)
  then have "\<bar>of_int (round_half_even (x / q)) - x / q\<bar> * q \<le> 1 / 2 * q"
    using qpos by (simp only: mult_le_cancel_right_pos)
  moreover have "\<bar>of_int (round_half_even (x / q)) - x / q\<bar> * q = \<bar>y - x\<bar>"
  proof -
    have "\<bar>of_int (round_half_even (x / q)) - x / q\<bar> * q
        = \<bar>(of_int (round_half_even (x / q)) - x / q) * q\<bar>"
      using qpos by (simp add: abs_mult)
    also have "(of_int (round_half_even (x / q)) - x / q) * q = y - x"
      using qpos by (simp add: y left_diff_distrib)
    finally show ?thesis .
  qed
  ultimately have "\<bar>y - x\<bar> \<le> 1 / 2 * q" by (simp only:)
  then show ?thesis by (simp add: q_def)
qed

text \<open>The equations that evaluate the rounding of a given number.\<close>

lemmas float_eval = round_double_def round_half_even_def binary_exponent.simps Let_def

text \<open>
  The doubles the examples use are rounded to themselves, and 0.01 and 1.01 to the
  doubles next to them.
\<close>

lemma round_double_examples:
  "round_double 5 = Finite 5"
  "round_double (- 5) = Finite (- 5)"
  "round_double 25 = Finite 25"
  "round_double 75 = Finite 75"
  "round_double 100 = Finite 100"
  "round_double 1 = Finite 1"
  "round_double (1 / 128) = Finite (1 / 128)"
  "round_double (1 / 256) = Finite (1 / 256)"
  "round_double (1 / 100) = Finite (5764607523034235 / 2 ^ 59)"
  "round_double (5764607523034235 / 2 ^ 59) = Finite (5764607523034235 / 2 ^ 59)"
  "round_double (101 / 100) = Finite (4548635623644201 / 2 ^ 52)"
  "round_double (1 + 5764607523034235 / 2 ^ 60) = Finite (1131529406376837 / 2 ^ 50)"
  by (simp_all add: float_eval)

lemma round_half_even_examples:
  "round_half_even (100 / 128) = 1"
  "round_half_even (100 / 256) = 0"
  "round_half_even (25 / 2) = 12"
  "round_half_even (100 * (1131529406376837 / 2 ^ 50)) = 100"
  "round_half_even (100 * (1 + 5764607523034235 / 2 ^ 60)) = 101"
  by (simp_all add: round_half_even_def Let_def)

subsection \<open>Adding a transaction\<close>

lemma is_positive_le_zero: "is_positive amount \<Longrightarrow> le_zero amount = Inr False"
  by (induction amount rule: is_positive.induct) auto

lemma add_transaction_invalid:
  "le_zero amount = Inr True \<Longrightarrow>
   add_transaction self type amount description category =
     (Inl (ValueError ''Amount must be a positive number.''), self)"
  by (simp add: add_transaction_def)

lemma add_transaction_type_error:
  "le_zero amount = Inl e \<Longrightarrow>
   add_transaction self type amount description category = (Inl e, self)"
  by (simp add: add_transaction_def)

lemma add_transaction_valid:
  "le_zero amount = Inr False \<Longrightarrow>
   add_transaction self type amount description category =
     (Inr (transaction_of (transaction_id_counter self) type amount description category),
      \<lparr>transactions = transactions self
         @ [transaction_of (transaction_id_counter self) type amount description category],
       transaction_id_counter = transaction_id_counter self + 1\<rparr>)"
  by (simp add: add_transaction_def get_next_id_def transaction_of_def Let_def)

lemma le_zero_cases:
  obtains (raised) e where "le_zero amount = Inl e"
  | (nonpositive) "le_zero amount = Inr True"
  | (accepted) "le_zero amount = Inr False"
  by (cases "le_zero amount") auto

lemma id_of_transaction_of [simp]: "id_of (transaction_of i k a d c) = Some i"
  by (simp add: id_of_def transaction_of_def)

text \<open>
  Claim C1. For every amount \<open>\<le> 0\<close> (an int or a float on which \<^verbatim>\<open>amount <= 0\<close> is true)
  and any kind, description and category, \<^verbatim>\<open>add_transaction\<close> raises the \<^verbatim>\<open>ValueError\<close>
  and the ledger after the call is the ledger before it (same transactions, same counter).
  For every amount \<open>> 0\<close> the call does not raise. No other argument is validated: whether
  the call raises is the same for any two ledgers, kinds, descriptions and categories,
  given the same amount. Whatever the call raises, it leaves the ledger as it was.
\<close>

theorem add_rejects_nonpositive_amount:
  "(le_zero amount = Inr True \<longrightarrow>
      add_transaction self type amount description category =
        (Inl (ValueError ''Amount must be a positive number.''), self))
   \<and> (is_positive amount \<longrightarrow> \<not> failed (add_transaction self type amount description category))
   \<and> failed (add_transaction self type amount description category)
       = failed (add_transaction self' type' amount description' category')
   \<and> (failed (add_transaction self type amount description category) \<longrightarrow>
        snd (add_transaction self type amount description category) = self)"
proof (cases amount rule: le_zero_cases)
  case (raised e)
  then have "\<not> is_positive amount"
    using is_positive_le_zero [of amount] by auto
  with raised show ?thesis by (simp add: add_transaction_type_error failed_def)
next
  case nonpositive
  then have "\<not> is_positive amount"
    using is_positive_le_zero [of amount] by auto
  with nonpositive show ?thesis by (simp add: add_transaction_invalid failed_def)
next
  case accepted
  then show ?thesis by (simp add: add_transaction_valid failed_def)
qed

text \<open>
  The scenario of the specification, \<^verbatim>\<open>add(Expense, -5.00, "Bad", "Test")\<close>, the amounts
  0.0 and 0, and a positive amount with a kind outside the enumeration and empty texts.
\<close>

theorem add_rejects_nonpositive_amount_witness:
  "add_transaction (ledger_init None) ''Expense'' (PFloat (Finite (- 5))) ''Bad'' ''Test''
     = (Inl (ValueError ''Amount must be a positive number.''), ledger_init None)
   \<and> add_transaction (ledger_init None) ''Expense'' (PFloat (Finite 0)) ''Bad'' ''Test''
     = (Inl (ValueError ''Amount must be a positive number.''), ledger_init None)
   \<and> add_transaction (ledger_init None) ''Expense'' (PInt 0) ''Bad'' ''Test''
     = (Inl (ValueError ''Amount must be a positive number.''), ledger_init None)
   \<and> \<not> failed (add_transaction (ledger_init None) ''Refund'' (PFloat (Finite (201 / 2))) [] [])"
  using
    add_rejects_nonpositive_amount [of "PFloat (Finite (- 5))" "ledger_init None" "''Expense''"
      "''Bad''" "''Test''"]
    add_rejects_nonpositive_amount [of "PFloat (Finite 0)" "ledger_init None" "''Expense''"
      "''Bad''" "''Test''"]
    add_rejects_nonpositive_amount [of "PInt 0" "ledger_init None" "''Expense''"
      "''Bad''" "''Test''"]
    add_rejects_nonpositive_amount [of "PFloat (Finite (201 / 2))" "ledger_init None" "''Refund''"
      "[]" "[]"]
  by simp

subsection \<open>Sequences of calls on a ledger\<close>

lemma run_adds_effect:
  "transactions (snd (run_adds self calls))
     = transactions self @ returned (fst (run_adds self calls))
   \<and> transaction_id_counter (snd (run_adds self calls))
     = transaction_id_counter self + int (length (returned (fst (run_adds self calls))))
   \<and> map id_of (returned (fst (run_adds self calls)))
     = map Some [transaction_id_counter self ..
         transaction_id_counter self + int (length (returned (fst (run_adds self calls)))) - 1]"
proof (induction calls arbitrary: self)
  case Nil
  then show ?case by simp
next
  case (Cons call calls)
  obtain type amount description category where call: "call = (type, amount, description, category)"
    by (cases call) auto
  show ?case
  proof (cases amount rule: le_zero_cases)
    case (raised e)
    then show ?thesis
      using Cons.IH [of self]
      by (simp add: call add_transaction_type_error case_prod_beta)
  next
    case nonpositive
    then show ?thesis
      using Cons.IH [of self]
      by (simp add: call add_transaction_invalid case_prod_beta)
  next
    case accepted
    let ?tx = "transaction_of (transaction_id_counter self) type amount description category"
    let ?s1 = "\<lparr>transactions = transactions self @ [?tx],
                transaction_id_counter = transaction_id_counter self + 1\<rparr>"
    have step: "run_adds self (call # calls)
        = (Inr ?tx # fst (run_adds ?s1 calls), snd (run_adds ?s1 calls))"
      by (simp add: call add_transaction_valid [OF accepted] case_prod_beta)
    have up: "[transaction_id_counter self .. transaction_id_counter self + int n]
        = transaction_id_counter self
            # [transaction_id_counter self + 1 .. transaction_id_counter self + int n]" for n
      by (simp add: upto_rec1)
    show ?thesis
      using Cons.IH [of ?s1] by (simp add: step up)
  qed
qed

lemma returned_length:
  "length (returned (fst (run_adds self calls)))
     = length (filter (\<lambda>(type, amount, description, category). le_zero amount = Inr False) calls)"
proof (induction calls arbitrary: self)
  case Nil
  then show ?case by simp
next
  case (Cons call calls)
  obtain type amount description category where call: "call = (type, amount, description, category)"
    by (cases call) auto
  show ?case
  proof (cases amount rule: le_zero_cases)
    case (raised e)
    then show ?thesis
      using Cons.IH [of self]
      by (simp add: call add_transaction_type_error case_prod_beta)
  next
    case nonpositive
    then show ?thesis
      using Cons.IH [of self]
      by (simp add: call add_transaction_invalid case_prod_beta)
  next
    case accepted
    then show ?thesis
      using Cons.IH by (simp add: call add_transaction_valid [OF accepted] case_prod_beta)
  qed
qed

lemma sorted_wrt_id_less:
  "map id_of txs = map Some ns \<Longrightarrow> sorted_wrt (<) ns \<Longrightarrow> sorted_wrt id_less txs"
proof (induction txs arbitrary: ns)
  case Nil
  then show ?case by simp
next
  case (Cons tx txs)
  then obtain n ns' where ns: "ns = n # ns'" by (cases ns) auto
  with Cons.prems have hd: "id_of tx = Some n" and tl: "map id_of txs = map Some ns'"
    and lt: "\<forall>m\<in>set ns'. n < m" and srt: "sorted_wrt (<) ns'"
    by auto
  have "id_less tx u" if "u \<in> set txs" for u
  proof -
    from that have "id_of u \<in> set (map id_of txs)" by simp
    with tl obtain m where "m \<in> set ns'" "id_of u = Some m" by auto
    with lt hd show ?thesis by (simp add: id_less_def)
  qed
  with Cons.IH [OF tl srt] show ?case by simp
qed

lemma ledger_init_empty: "ledger_init (Some []) = ledger_init None"
  by (simp add: ledger_init_def)

text \<open>
  Claim C2. On a ledger created empty (with no argument, or with the empty list), after
  any sequence of \<^verbatim>\<open>add_transaction\<close> calls: the stored transactions are the ones the
  successful calls returned, there is one for each call whose amount passed the check, the
  \<open>i\<close>-th of them has id \<open>i\<close>, the ids are pairwise different and strictly increasing in
  insertion order.
\<close>

theorem ids_sequential_from_empty:
  "ledger_init (Some []) = ledger_init None
   \<and> transactions (snd (run_adds (ledger_init None) calls))
       = returned (fst (run_adds (ledger_init None) calls))
   \<and> length (returned (fst (run_adds (ledger_init None) calls)))
       = length (filter (\<lambda>(type, amount, description, category). le_zero amount = Inr False) calls)
   \<and> map id_of (returned (fst (run_adds (ledger_init None) calls)))
       = map Some [1 .. int (length (returned (fst (run_adds (ledger_init None) calls))))]
   \<and> distinct (map id_of (transactions (snd (run_adds (ledger_init None) calls))))
   \<and> sorted_wrt id_less (transactions (snd (run_adds (ledger_init None) calls)))"
proof -
  let ?l = "ledger_init None"
  let ?rs = "returned (fst (run_adds ?l calls))"
  have txs: "transactions (snd (run_adds ?l calls)) = ?rs"
    using run_adds_effect [of ?l calls] by (simp add: ledger_init_def)
  have ids: "map id_of ?rs = map Some [1 .. int (length ?rs)]"
    using run_adds_effect [of ?l calls] by (simp add: ledger_init_def)
  have "distinct (map Some [1 .. int (length ?rs)])"
    by (simp add: distinct_map)
  then have dist: "distinct (map id_of ?rs)" by (simp only: ids)
  have srt: "sorted_wrt id_less ?rs"
    by (rule sorted_wrt_id_less [OF ids]) simp
  show ?thesis
    using txs ids dist srt returned_length [of ?l calls] ledger_init_empty by simp
qed

subsection \<open>The summary\<close>

lemma py_float_float_value:
  "float_value v = Some f \<Longrightarrow> py_float str_float v = Inr f"
  by (cases v) (auto split: pyfloat.splits)

lemma py_float_number:
  "py_float str_float (PFloat f) = Inr f"
  "py_float str_float (PInt i) =
     (case float_value (PInt i) of
        None \<Rightarrow> Inl (OverflowError ''int too large to convert to float'')
      | Some f \<Rightarrow> Inr f)"
  by (auto split: pyfloat.splits)

text \<open>
  One turn of the loop on a transaction with a string under \<^verbatim>\<open>"type"\<close> and a value under
  \<^verbatim>\<open>"amount"\<close>.
\<close>

lemma summary_loop_step:
  assumes "tx ''type'' = Some (PStr k)" "tx ''amount'' = Some v"
  shows "summary_loop str_float (tx # txs) i e =
     (if k = ''Income'' then
        (case py_float str_float v of
           Inl err \<Rightarrow> Inl err
         | Inr a \<Rightarrow> summary_loop str_float txs (float_add i a) e)
      else if k = ''Expense'' then
        (case py_float str_float v of
           Inl err \<Rightarrow> Inl err
         | Inr a \<Rightarrow> summary_loop str_float txs i (float_add e a))
      else summary_loop str_float txs i e)"
  using assms by (simp add: dict_get_def Let_def)

lemma filter_kind_step:
  assumes "tx ''type'' = Some (PStr k)"
  shows "filter (has_kind kind) (tx # txs)
     = (if k = kind then tx # filter (has_kind kind) txs else filter (has_kind kind) txs)"
  using assms by (simp add: has_kind_def)

lemma summary_loop_shape:
  "list_all transaction_shape txs \<Longrightarrow>
   summary_loop str_float txs i e
     = Inr (foldl float_add i (map amount_of (filter (has_kind ''Income'') txs)),
            foldl float_add e (map amount_of (filter (has_kind ''Expense'') txs)))"
proof (induction txs arbitrary: i e)
  case Nil
  then show ?case by simp
next
  case (Cons tx txs)
  then have shape: "transaction_shape tx" and rest: "list_all transaction_shape txs"
    by simp_all
  from shape obtain k where k: "tx ''type'' = Some (PStr k)"
    by (auto simp: transaction_shape_def split: option.splits pyval.splits)
  from shape obtain v f where v: "tx ''amount'' = Some v" and f: "float_value v = Some f"
    by (auto simp: transaction_shape_def split: option.splits)
  have a: "py_float str_float v = Inr f"
    using f by (rule py_float_float_value)
  have am: "amount_of tx = f"
    by (simp add: amount_of_def v f)
  show ?case
    by (simp only: summary_loop_step [OF k v] filter_kind_step [of tx k, OF k] a Cons.IH [OF rest])
       (simp add: am)
qed


lemma summary_loop_append:
  "summary_loop str_float (pre @ post) acc_income acc_expense
     = (case summary_loop str_float pre acc_income acc_expense of
          Inl e \<Rightarrow> Inl e
        | Inr (i, e) \<Rightarrow> summary_loop str_float post i e)"
  by (induction pre arbitrary: acc_income acc_expense) (simp_all add: Let_def split: sum.splits)

lemma get_summary_shape:
  "list_all transaction_shape (transactions self) \<Longrightarrow>
   get_summary str_float self =
     (Inr \<lparr>total_income = py_round (float_sum ''Income'' (transactions self)) 2,
           total_expense = py_round (float_sum ''Expense'' (transactions self)) 2,
           net_balance =
             py_round (float_sub (float_sum ''Income'' (transactions self))
                         (float_sum ''Expense'' (transactions self))) 2\<rparr>,
      self)"
  by (simp add: get_summary_def summary_loop_shape float_sum_def)


subsection \<open>Ledgers created empty\<close>

lemma transaction_of_kind_and_number:
  "le_zero a = Inr False \<Longrightarrow> kind_and_number (transaction_of i k a d c)"
  by (cases a) (simp_all add: kind_and_number_def transaction_of_def)


lemma run_adds_list_all:
  assumes new: "\<And>i k a d c. le_zero a = Inr False \<Longrightarrow> P (transaction_of i k a d c)"
  shows "list_all P (transactions self) \<Longrightarrow> list_all P (transactions (snd (run_adds self calls)))"
proof (induction calls arbitrary: self)
  case Nil
  then show ?case by simp
next
  case (Cons call calls)
  obtain type amount description category where call: "call = (type, amount, description, category)"
    by (cases call) auto
  show ?case
  proof (cases amount rule: le_zero_cases)
    case (raised e)
    then show ?thesis
      using Cons.IH [OF Cons.prems]
      by (simp add: call add_transaction_type_error case_prod_beta)
  next
    case nonpositive
    then show ?thesis
      using Cons.IH [OF Cons.prems]
      by (simp add: call add_transaction_invalid case_prod_beta)
  next
    case accepted
    let ?tx = "transaction_of (transaction_id_counter self) type amount description category"
    let ?s1 = "\<lparr>transactions = transactions self @ [?tx],
                transaction_id_counter = transaction_id_counter self + 1\<rparr>"
    have "list_all P (transactions ?s1)"
      using Cons.prems new [OF accepted] by simp
    from Cons.IH [OF this] show ?thesis
      by (simp add: call add_transaction_valid [OF accepted] case_prod_beta)
  qed
qed

lemma from_empty_kind_and_number:
  "list_all kind_and_number (transactions (snd (run_adds (ledger_init None) calls)))"
  by (rule run_adds_list_all) (simp_all add: ledger_init_def transaction_of_kind_and_number)

lemma from_empty_ids_below:
  assumes "t \<in> set (transactions (snd (run_adds (ledger_init None) calls)))"
  shows "\<exists>i. id_of t = Some i \<and> i < transaction_id_counter (snd (run_adds (ledger_init None) calls))"
proof -
  let ?l = "ledger_init None"
  let ?rs = "returned (fst (run_adds ?l calls))"
  have txs: "transactions (snd (run_adds ?l calls)) = ?rs"
    and cnt: "transaction_id_counter (snd (run_adds ?l calls)) = 1 + int (length ?rs)"
    and ids: "map id_of ?rs = map Some [1 .. int (length ?rs)]"
    using run_adds_effect [of ?l calls] by (simp_all add: ledger_init_def)
  from assms txs have "id_of t \<in> set (map id_of ?rs)" by simp
  then have "id_of t \<in> Some ` {1 .. int (length ?rs)}" by (simp add: ids)
  then show ?thesis using cnt by auto
qed

subsection \<open>The claims about the summary and the stored amounts\<close>

text \<open>
  Claim C3, as amended. For every ledger whose stored transactions have a string as kind
  and, as amount, a float or an int in the range of the doubles, \<^verbatim>\<open>get_summary\<close> returns,
  and changes nothing: \<open>total_income\<close> is the sum of the amounts of the transactions of
  kind \<^verbatim>\<open>Income\<close>, \<open>total_expense\<close> the sum of those of kind \<^verbatim>\<open>Expense\<close>, both added as
  Python adds floats (from 0.0, in insertion order, each addition rounded to a double),
  \<open>net_balance\<close> is the first sum minus the second, a float subtraction, and each of the
  three is rounded by \<^verbatim>\<open>round(_, 2)\<close>. On a finite value that rounding takes the nearest
  whole number of hundredths, a tie going to the even one, and the double nearest to it.
\<close>

theorem summary_sums_by_kind:
  assumes "list_all transaction_shape (transactions self)"
  shows "get_summary str_float self =
     (Inr \<lparr>total_income = py_round (float_sum ''Income'' (transactions self)) 2,
           total_expense = py_round (float_sum ''Expense'' (transactions self)) 2,
           net_balance =
             py_round (float_sub (float_sum ''Income'' (transactions self))
                         (float_sum ''Expense'' (transactions self))) 2\<rparr>,
      self)
   \<and> py_round (Finite x) 2 = round_double (of_int (round_half_even (x * 100)) / 100)
   \<and> \<bar>of_int (round_half_even (x * 100)) - x * 100\<bar> \<le> 1 / 2"
proof (intro conjI)
  show "get_summary str_float self =
     (Inr \<lparr>total_income = py_round (float_sum ''Income'' (transactions self)) 2,
           total_expense = py_round (float_sum ''Expense'' (transactions self)) 2,
           net_balance =
             py_round (float_sub (float_sum ''Income'' (transactions self))
                         (float_sum ''Expense'' (transactions self))) 2\<rparr>,
      self)"
    using assms by (rule get_summary_shape)
  show "py_round (Finite x) 2 = round_double (of_int (round_half_even (x * 100)) / 100)"
    by simp
  show "\<bar>of_int (round_half_even (x * 100)) - x * 100\<bar> \<le> 1 / 2"
    by (rule round_half_even_near)
qed

text \<open>
  The scenario of the specification: \<^verbatim>\<open>add(Expense, 25.00, "Groceries", "Food")\<close>, then
  \<^verbatim>\<open>add(Income, 100.00, "Bonus", "Salary")\<close>, then the summary is 100.00, 25.00 and 75.00.
  The tie 12.5 hundredths (0.125) goes to the even number of hundredths, 12.
\<close>

theorem summary_sums_by_kind_witness:
  "list_all transaction_shape
     (transactions (snd (run_adds (ledger_init None)
        [(''Expense'', PFloat (Finite 25), ''Groceries'', ''Food''),
         (''Income'', PFloat (Finite 100), ''Bonus'', ''Salary'')])))
   \<and> get_summary (\<lambda>s. None) (snd (run_adds (ledger_init None)
        [(''Expense'', PFloat (Finite 25), ''Groceries'', ''Food''),
         (''Income'', PFloat (Finite 100), ''Bonus'', ''Salary'')]))
     = (Inr \<lparr>total_income = Finite 100, total_expense = Finite 25, net_balance = Finite 75\<rparr>,
        \<lparr>transactions =
           [transaction_of 1 ''Expense'' (PFloat (Finite 25)) ''Groceries'' ''Food'',
            transaction_of 2 ''Income'' (PFloat (Finite 100)) ''Bonus'' ''Salary''],
         transaction_id_counter = 3\<rparr>)
   \<and> round_half_even (1 / 8 * 100) = 12"
proof -
  let ?txs = "[transaction_of 1 ''Expense'' (PFloat (Finite 25)) ''Groceries'' ''Food'',
            transaction_of 2 ''Income'' (PFloat (Finite 100)) ''Bonus'' ''Salary'']"
  let ?l = "\<lparr>transactions = ?txs, transaction_id_counter = 3\<rparr>"
  have l: "snd (run_adds (ledger_init None)
        [(''Expense'', PFloat (Finite 25), ''Groceries'', ''Food''),
         (''Income'', PFloat (Finite 100), ''Bonus'', ''Salary'')]) = ?l"
    by (simp add: add_transaction_valid ledger_init_def case_prod_beta)
  have h: "list_all transaction_shape (transactions ?l)"
    by (simp add: transaction_shape_def transaction_of_def)
  have sums:
    "float_sum ''Income'' ?txs = Finite 100"
    "float_sum ''Expense'' ?txs = Finite 25"
    by (simp_all add: float_sum_def has_kind_def amount_of_def transaction_of_def
        round_double_examples)
  have r: "py_round (Finite 100) 2 = Finite 100" "py_round (Finite 25) 2 = Finite 25"
    "py_round (Finite 75) 2 = Finite 75"
    by (simp_all add: round_double_examples)
  have d: "float_sub (Finite 100) (Finite 25) = Finite 75"
    by (simp add: round_double_examples)
  have r2: "round_half_even (25 / 2) = 12"
    by (rule round_half_even_examples)
  from summary_sums_by_kind [OF h, of "\<lambda>s. None" "1 / 8"]
  have "get_summary (\<lambda>s. None) ?l
     = (Inr \<lparr>total_income = Finite 100, total_expense = Finite 25, net_balance = Finite 75\<rparr>, ?l)"
    by (simp add: sums r d del: py_round.simps float_sub.simps)
  then show ?thesis
    unfolding l using h r2 by simp
qed

text \<open>
  Claim C3 as stated fails on two counts. It is stated for every ledger state: on a
  ledger constructed with a transaction that has the amount 5.0 and no kind,
  \<open>total_expense\<close> is 5.0 although no stored transaction has the kind \<^verbatim>\<open>Expense\<close>. And the
  sum is the sum of floats: after the incomes 1.0 and 0.005 (the double
  \<open>5764607523034235 / 2 ^ 60\<close>), on a ledger created empty, \<open>total_income\<close> is 1.0, where
  the exact sum of the two amounts, rounded to two decimals, is 1.01 (the double
  \<open>4548635623644201 / 2 ^ 52\<close>).
\<close>

theorem summary_not_sum_over_kind:
  "fst (get_summary (\<lambda>s. None) (ledger_init (Some [[''amount'' \<mapsto> PFloat (Finite 5)]])))
     = Inr \<lparr>total_income = Finite 0, total_expense = Finite 5, net_balance = Finite (- 5)\<rparr>
   \<and> filter (has_kind ''Expense'')
       (transactions (ledger_init (Some [[''amount'' \<mapsto> PFloat (Finite 5)]]))) = []
   \<and> py_round (float_sum ''Expense''
       (transactions (ledger_init (Some [[''amount'' \<mapsto> PFloat (Finite 5)]])))) 2 = Finite 0
   \<and> fst (get_summary (\<lambda>s. None) (snd (run_adds (ledger_init None)
        [(''Income'', PFloat (Finite 1), ''Fee'', ''Work''),
         (''Income'', PFloat (Finite (5764607523034235 / 2 ^ 60)), ''Interest'', ''Bank'')])))
     = Inr \<lparr>total_income = Finite 1, total_expense = Finite 0, net_balance = Finite 1\<rparr>
   \<and> py_round (Finite (exact_sum ''Income'' (transactions (snd (run_adds (ledger_init None)
        [(''Income'', PFloat (Finite 1), ''Fee'', ''Work''),
         (''Income'', PFloat (Finite (5764607523034235 / 2 ^ 60)), ''Interest'', ''Bank'')]))))) 2
     = Finite (4548635623644201 / 2 ^ 52)"
proof (intro conjI)
  let ?l = "ledger_init (Some [[''amount'' \<mapsto> PFloat (Finite 5)]])"
  show "fst (get_summary (\<lambda>s. None) ?l)
     = Inr \<lparr>total_income = Finite 0, total_expense = Finite 5, net_balance = Finite (- 5)\<rparr>"
    by (simp add: get_summary_def ledger_init_def dict_get_def round_double_examples)
  show "filter (has_kind ''Expense'') (transactions ?l) = []"
    by (simp add: ledger_init_def has_kind_def)
  show "py_round (float_sum ''Expense'' (transactions ?l)) 2 = Finite 0"
    by (simp add: ledger_init_def has_kind_def float_sum_def)
next
  let ?d = "5764607523034235 / 2 ^ 60 :: real"
  let ?txs = "[transaction_of 1 ''Income'' (PFloat (Finite 1)) ''Fee'' ''Work'',
      transaction_of 2 ''Income'' (PFloat (Finite ?d)) ''Interest'' ''Bank'']"
  have l: "snd (run_adds (ledger_init None)
        [(''Income'', PFloat (Finite 1), ''Fee'', ''Work''),
         (''Income'', PFloat (Finite ?d), ''Interest'', ''Bank'')])
      = \<lparr>transactions = ?txs, transaction_id_counter = 3\<rparr>"
    by (simp add: add_transaction_valid ledger_init_def case_prod_beta)
  have loop: "summary_loop (\<lambda>s. None) ?txs (Finite 0) (Finite 0)
      = Inr (Finite (1131529406376837 / 2 ^ 50), Finite 0)"
    by (simp add: transaction_of_def dict_get_def float_eval)
  have income: "py_round (Finite (1131529406376837 / 2 ^ 50)) 2 = Finite 1"
    by (simp add: float_eval)
  have net: "py_round (float_sub (Finite (1131529406376837 / 2 ^ 50)) (Finite 0)) 2 = Finite 1"
    by (simp add: float_eval)
  show "fst (get_summary (\<lambda>s. None) (snd (run_adds (ledger_init None)
        [(''Income'', PFloat (Finite 1), ''Fee'', ''Work''),
         (''Income'', PFloat (Finite ?d), ''Interest'', ''Bank'')])))
     = Inr \<lparr>total_income = Finite 1, total_expense = Finite 0, net_balance = Finite 1\<rparr>"
    unfolding l get_summary_def
    by (simp only: PersonalFinanceLedger.select_convs loop sum.case prod.case Let_def
        income net py_round_0 fst_conv)
  have exact: "exact_sum ''Income'' ?txs = 1 + ?d"
    by (simp add: exact_sum_def has_kind_def amount_of_def transaction_of_def)
  show "py_round (Finite (exact_sum ''Income'' (transactions (snd (run_adds (ledger_init None)
        [(''Income'', PFloat (Finite 1), ''Fee'', ''Work''),
         (''Income'', PFloat (Finite ?d), ''Interest'', ''Bank'')]))))) 2
     = Finite (4548635623644201 / 2 ^ 52)"
    unfolding l PersonalFinanceLedger.select_convs exact by (simp add: float_eval)
qed






subsection \<open>The claims about adding, listing and initial data\<close>

text \<open>
  Claim C6, as amended. For every valid input (amount \<open>> 0\<close>) and every ledger,
  \<^verbatim>\<open>add_transaction\<close> returns the transaction with the given kind, amount, description and
  category and the value of the counter as id, appends exactly that transaction at the end
  of the sequence, increments the counter and changes nothing else; a subsequent
  \<^verbatim>\<open>get_transactions\<close> returns the sequence with it as the last element and changes
  nothing. When the ledger was created empty and changed by \<^verbatim>\<open>add_transaction\<close> calls
  only, its id is strictly greater than the id of every earlier element.
\<close>

theorem add_appends_transaction:
  assumes "is_positive amount"
  shows "add_transaction self type amount description category =
     (Inr (transaction_of (transaction_id_counter self) type amount description category),
      \<lparr>transactions = transactions self
         @ [transaction_of (transaction_id_counter self) type amount description category],
       transaction_id_counter = transaction_id_counter self + 1\<rparr>)
   \<and> fst (get_transactions (snd (add_transaction self type amount description category)))
       = transactions self
         @ [transaction_of (transaction_id_counter self) type amount description category]
   \<and> snd (get_transactions (snd (add_transaction self type amount description category)))
       = snd (add_transaction self type amount description category)
   \<and> (self = snd (run_adds (ledger_init None) calls) \<longrightarrow>
        list_all
          (\<lambda>t. id_less t
             (transaction_of (transaction_id_counter self) type amount description category))
          (transactions self))"
proof (intro conjI impI)
  let ?tx = "transaction_of (transaction_id_counter self) type amount description category"
  show eq: "add_transaction self type amount description category =
     (Inr ?tx,
      \<lparr>transactions = transactions self @ [?tx],
       transaction_id_counter = transaction_id_counter self + 1\<rparr>)"
    using assms by (intro add_transaction_valid is_positive_le_zero)
  show "fst (get_transactions (snd (add_transaction self type amount description category)))
       = transactions self @ [?tx]"
    by (simp add: eq get_transactions_def)
  show "snd (get_transactions (snd (add_transaction self type amount description category)))
       = snd (add_transaction self type amount description category)"
    by (simp add: get_transactions_def)
  assume reach: "self = snd (run_adds (ledger_init None) calls)"
  have "id_less t ?tx" if "t \<in> set (transactions self)" for t
  proof -
    from that reach obtain i where "id_of t = Some i" "i < transaction_id_counter self"
      using from_empty_ids_below [of t calls] by auto
    then show ?thesis by (simp add: id_less_def)
  qed
  then show "list_all (\<lambda>t. id_less t ?tx) (transactions self)"
    by (simp add: list_all_iff)
qed

text \<open>
  The second call of the specification's scenario, on the ledger the first call leaves.
\<close>

theorem add_appends_transaction_witness:
  "is_positive (PFloat (Finite 100))
   \<and> snd (add_transaction (ledger_init None) ''Expense'' (PFloat (Finite 25)) ''Groceries'' ''Food'')
       = snd (run_adds (ledger_init None) [(''Expense'', PFloat (Finite 25), ''Groceries'', ''Food'')])
   \<and> add_transaction
        (snd (add_transaction (ledger_init None) ''Expense'' (PFloat (Finite 25)) ''Groceries''
           ''Food''))
        ''Income'' (PFloat (Finite 100)) ''Bonus'' ''Salary''
     = (Inr (transaction_of 2 ''Income'' (PFloat (Finite 100)) ''Bonus'' ''Salary''),
        \<lparr>transactions =
           [transaction_of 1 ''Expense'' (PFloat (Finite 25)) ''Groceries'' ''Food'',
            transaction_of 2 ''Income'' (PFloat (Finite 100)) ''Bonus'' ''Salary''],
         transaction_id_counter = 3\<rparr>)
   \<and> id_less (transaction_of 1 ''Expense'' (PFloat (Finite 25)) ''Groceries'' ''Food'')
        (transaction_of 2 ''Income'' (PFloat (Finite 100)) ''Bonus'' ''Salary'')"
proof -
  let ?l = "\<lparr>transactions = [transaction_of 1 ''Expense'' (PFloat (Finite 25)) ''Groceries'' ''Food''],
            transaction_id_counter = 2\<rparr>"
  have l: "snd (add_transaction (ledger_init None) ''Expense'' (PFloat (Finite 25)) ''Groceries''
      ''Food'') = ?l"
    by (simp add: add_transaction_valid ledger_init_def)
  have r: "?l = snd (run_adds (ledger_init None)
      [(''Expense'', PFloat (Finite 25), ''Groceries'', ''Food'')])"
    by (simp add: add_transaction_valid ledger_init_def case_prod_beta)
  have pos: "is_positive (PFloat (Finite 100))" by simp
  note inst = add_appends_transaction [OF pos, of ?l "''Income''" "''Bonus''" "''Salary''"
      "[(''Expense'', PFloat (Finite 25), ''Groceries'', ''Food'')]"]
  from inst have added: "add_transaction ?l ''Income'' (PFloat (Finite 100)) ''Bonus'' ''Salary''
     = (Inr (transaction_of 2 ''Income'' (PFloat (Finite 100)) ''Bonus'' ''Salary''),
        \<lparr>transactions =
           [transaction_of 1 ''Expense'' (PFloat (Finite 25)) ''Groceries'' ''Food'',
            transaction_of 2 ''Income'' (PFloat (Finite 100)) ''Bonus'' ''Salary''],
         transaction_id_counter = 3\<rparr>)"
    by simp
  from inst r have "list_all
      (\<lambda>t. id_less t (transaction_of (transaction_id_counter ?l) ''Income'' (PFloat (Finite 100))
         ''Bonus'' ''Salary''))
      (transactions ?l)"
    by blast
  then have above: "id_less (transaction_of 1 ''Expense'' (PFloat (Finite 25)) ''Groceries'' ''Food'')
        (transaction_of 2 ''Income'' (PFloat (Finite 100)) ''Bonus'' ''Salary'')"
    by simp
  show ?thesis
    unfolding l using pos r added above by (intro conjI)
qed

text \<open>
  Claim C6 as stated fails on a ledger constructed with initial data: the counter starts
  at 1 whatever the ids of the initial transactions are, so after an initial transaction
  with id 5 the new last element has id 1.
\<close>

theorem add_id_not_above_initial_ids:
  "add_transaction
     (ledger_init (Some [transaction_of 5 ''Income'' (PFloat (Finite 10)) ''Old'' ''Salary'']))
     ''Expense'' (PFloat (Finite 25)) ''Groceries'' ''Food''
     = (Inr (transaction_of 1 ''Expense'' (PFloat (Finite 25)) ''Groceries'' ''Food''),
        \<lparr>transactions =
           [transaction_of 5 ''Income'' (PFloat (Finite 10)) ''Old'' ''Salary'',
            transaction_of 1 ''Expense'' (PFloat (Finite 25)) ''Groceries'' ''Food''],
         transaction_id_counter = 2\<rparr>)
   \<and> \<not> id_less (transaction_of 5 ''Income'' (PFloat (Finite 10)) ''Old'' ''Salary'')
          (transaction_of 1 ''Expense'' (PFloat (Finite 25)) ''Groceries'' ''Food'')"
  by (simp add: add_transaction_valid ledger_init_def id_less_def)

text \<open>
  Claim C7. On a ledger with no transactions, whatever its counter is, and so on a ledger
  just created empty, \<^verbatim>\<open>get_summary\<close> returns 0.00, 0.00 and 0.00.
\<close>

theorem summary_of_empty_ledger:
  "get_summary str_float \<lparr>transactions = [], transaction_id_counter = n\<rparr>
     = (Inr \<lparr>total_income = Finite 0, total_expense = Finite 0, net_balance = Finite 0\<rparr>,
        \<lparr>transactions = [], transaction_id_counter = n\<rparr>)
   \<and> get_summary str_float (ledger_init None)
     = (Inr \<lparr>total_income = Finite 0, total_expense = Finite 0, net_balance = Finite 0\<rparr>,
        ledger_init None)"
  by (simp add: get_summary_def ledger_init_def)

text \<open>
  Claim C8. \<^verbatim>\<open>get_summary\<close> leaves the ledger as it is, transactions and counter, also
  when it raises; a second call right after the first returns the same result.
\<close>

theorem summary_has_no_side_effect:
  "snd (get_summary str_float self) = self
   \<and> transactions (snd (get_summary str_float self)) = transactions self
   \<and> transaction_id_counter (snd (get_summary str_float self)) = transaction_id_counter self
   \<and> fst (get_summary str_float (snd (get_summary str_float self)))
       = fst (get_summary str_float self)"
proof -
  have "snd (get_summary str_float self) = self"
    by (simp add: get_summary_def Let_def split: sum.splits prod.splits)
  then show ?thesis by simp
qed

text \<open>
  Claim C10. A ledger constructed with any list of initial transactions has the counter 1,
  so the first successful \<^verbatim>\<open>add_transaction\<close> on it returns and stores a transaction with
  id 1; when an initial transaction has the id 1 already, the stored ids are no longer
  pairwise different.
\<close>

theorem counter_starts_at_one_with_initial_data:
  assumes "is_positive amount"
  shows "transaction_id_counter (ledger_init (Some txs)) = 1
   \<and> fst (add_transaction (ledger_init (Some txs)) type amount description category)
       = Inr (transaction_of 1 type amount description category)
   \<and> transactions (snd (add_transaction (ledger_init (Some txs)) type amount description category))
       = txs @ [transaction_of 1 type amount description category]
   \<and> (Some 1 \<in> set (map id_of txs) \<longrightarrow>
        \<not> distinct (map id_of
             (transactions
                (snd (add_transaction (ledger_init (Some txs)) type amount description category)))))"
  using is_positive_le_zero [OF assms] by (simp add: add_transaction_valid ledger_init_def)

text \<open>An initial transaction with id 1, and the first call on that ledger.\<close>

theorem counter_starts_at_one_with_initial_data_witness:
  "is_positive (PFloat (Finite 25))
   \<and> fst (add_transaction
        (ledger_init (Some [transaction_of 1 ''Income'' (PFloat (Finite 10)) ''Old'' ''Salary'']))
        ''Expense'' (PFloat (Finite 25)) ''Groceries'' ''Food'')
       = Inr (transaction_of 1 ''Expense'' (PFloat (Finite 25)) ''Groceries'' ''Food'')
   \<and> Some 1 \<in> set (map id_of [transaction_of 1 ''Income'' (PFloat (Finite 10)) ''Old'' ''Salary''])
   \<and> \<not> distinct (map id_of
        (transactions (snd (add_transaction
           (ledger_init (Some [transaction_of 1 ''Income'' (PFloat (Finite 10)) ''Old'' ''Salary'']))
           ''Expense'' (PFloat (Finite 25)) ''Groceries'' ''Food''))))"
proof -
  have pos: "is_positive (PFloat (Finite 25))" by simp
  have mem: "Some 1 \<in> set (map id_of [transaction_of 1 ''Income'' (PFloat (Finite 10)) ''Old'' ''Salary''])"
    by simp
  show ?thesis
    using pos mem
      counter_starts_at_one_with_initial_data [OF pos,
        of "[transaction_of 1 ''Income'' (PFloat (Finite 10)) ''Old'' ''Salary'']" "''Expense''"
          "''Groceries''" "''Food''"]
    by blast
qed

subsection \<open>Transactions that are not of the specification's shape\<close>

lemma summary_loop_middle:
  assumes "\<And>i e. summary_loop str_float xs i e = summary_loop str_float ys i e"
  shows "summary_loop str_float (pre @ xs) acc_income acc_expense
     = summary_loop str_float (pre @ ys) acc_income acc_expense"
  by (simp add: summary_loop_append assms split: sum.splits)

lemma get_summary_loop_eq:
  assumes "summary_loop str_float xs (Finite 0) (Finite 0)
     = summary_loop str_float ys (Finite 0) (Finite 0)"
  shows "fst (get_summary str_float (self\<lparr>transactions := xs\<rparr>))
     = fst (get_summary str_float (self\<lparr>transactions := ys\<rparr>))"
  using assms by (simp add: get_summary_def Let_def split: sum.splits prod.splits)

lemma summary_loop_skip:
  assumes "tx ''type'' = Some v" "v \<noteq> PStr ''Income''" "v \<noteq> PStr ''Expense''"
  shows "summary_loop str_float (tx # post) i e = summary_loop str_float post i e"
  using assms by (simp add: dict_get_def Let_def)

lemma summary_loop_missing_type:
  assumes "tx ''type'' = None"
  shows "summary_loop str_float (tx # post) i e
     = summary_loop str_float (tx(''type'' \<mapsto> PStr ''Expense'') # post) i e"
  using assms by (simp add: dict_get_def Let_def)

lemma summary_loop_missing_amount:
  assumes "tx ''amount'' = None"
  shows "summary_loop str_float (tx # post) i e
     = summary_loop str_float (tx(''amount'' \<mapsto> PFloat (Finite 0)) # post) i e"
  using assms by (simp add: dict_get_def Let_def)

text \<open>
  Claim C9, as amended. In \<^verbatim>\<open>get_summary\<close>, wherever the transaction stands in the
  sequence: one whose \<^verbatim>\<open>"type"\<close> is neither \<^verbatim>\<open>"Income"\<close> nor \<^verbatim>\<open>"Expense"\<close> is skipped (the
  result is the one without it); one with no \<^verbatim>\<open>"type"\<close> counts as it would with the type
  \<^verbatim>\<open>"Expense"\<close>; one with no \<^verbatim>\<open>"amount"\<close> counts as it would with the amount 0.0. On a
  ledger created empty and changed by \<^verbatim>\<open>add_transaction\<close> calls only, every transaction has
  a type and a number as amount, so a missing key needs initial data. A type outside the
  two is stored by \<^verbatim>\<open>add_transaction\<close> as given, on any ledger.
\<close>

theorem summary_of_malformed_transactions:
  "(tx ''type'' = Some v \<and> v \<noteq> PStr ''Income'' \<and> v \<noteq> PStr ''Expense'' \<longrightarrow>
      fst (get_summary str_float (self\<lparr>transactions := pre @ tx # post\<rparr>))
        = fst (get_summary str_float (self\<lparr>transactions := pre @ post\<rparr>)))
   \<and> (tx ''type'' = None \<longrightarrow>
      fst (get_summary str_float (self\<lparr>transactions := pre @ tx # post\<rparr>))
        = fst (get_summary str_float
            (self\<lparr>transactions := pre @ tx(''type'' \<mapsto> PStr ''Expense'') # post\<rparr>)))
   \<and> (tx ''amount'' = None \<longrightarrow>
      fst (get_summary str_float (self\<lparr>transactions := pre @ tx # post\<rparr>))
        = fst (get_summary str_float
            (self\<lparr>transactions := pre @ tx(''amount'' \<mapsto> PFloat (Finite 0)) # post\<rparr>)))
   \<and> list_all kind_and_number (transactions (snd (run_adds (ledger_init None) calls)))
   \<and> (is_positive amount \<longrightarrow>
      has_kind type
        (last (transactions (snd (add_transaction self type amount description category)))))"
proof (intro conjI impI)
  assume "tx ''type'' = Some v \<and> v \<noteq> PStr ''Income'' \<and> v \<noteq> PStr ''Expense''"
  then have other: "tx ''type'' = Some v" "v \<noteq> PStr ''Income''" "v \<noteq> PStr ''Expense''"
    by simp_all
  have "summary_loop str_float (tx # post) i e = summary_loop str_float post i e" for i e
    using other by (rule summary_loop_skip)
  then show "fst (get_summary str_float (self\<lparr>transactions := pre @ tx # post\<rparr>))
        = fst (get_summary str_float (self\<lparr>transactions := pre @ post\<rparr>))"
    by (intro get_summary_loop_eq summary_loop_middle)
next
  assume "tx ''type'' = None"
  then have "summary_loop str_float (tx # post) i e
      = summary_loop str_float (tx(''type'' \<mapsto> PStr ''Expense'') # post) i e" for i e
    by (rule summary_loop_missing_type)
  then show "fst (get_summary str_float (self\<lparr>transactions := pre @ tx # post\<rparr>))
        = fst (get_summary str_float
            (self\<lparr>transactions := pre @ tx(''type'' \<mapsto> PStr ''Expense'') # post\<rparr>))"
    by (intro get_summary_loop_eq summary_loop_middle)
next
  assume "tx ''amount'' = None"
  then have "summary_loop str_float (tx # post) i e
      = summary_loop str_float (tx(''amount'' \<mapsto> PFloat (Finite 0)) # post) i e" for i e
    by (rule summary_loop_missing_amount)
  then show "fst (get_summary str_float (self\<lparr>transactions := pre @ tx # post\<rparr>))
        = fst (get_summary str_float
            (self\<lparr>transactions := pre @ tx(''amount'' \<mapsto> PFloat (Finite 0)) # post\<rparr>))"
    by (intro get_summary_loop_eq summary_loop_middle)
next
  show "list_all kind_and_number (transactions (snd (run_adds (ledger_init None) calls)))"
    by (rule from_empty_kind_and_number)
next
  assume "is_positive amount"
  then have "le_zero amount = Inr False" by (rule is_positive_le_zero)
  then show "has_kind type
      (last (transactions (snd (add_transaction self type amount description category))))"
    by (simp add: add_transaction_valid has_kind_def transaction_of_def)
qed

text \<open>
  A transaction of type \<^verbatim>\<open>"Refund"\<close>, one with no type and the amount 5.0, and one of type
  \<^verbatim>\<open>"Income"\<close> with no amount, each alone in a ledger.
\<close>

theorem summary_of_malformed_transactions_witness:
  "fst (get_summary (\<lambda>s. None)
      (ledger_init (Some [[''type'' \<mapsto> PStr ''Refund'', ''amount'' \<mapsto> PFloat (Finite 5)]])))
     = Inr \<lparr>total_income = Finite 0, total_expense = Finite 0, net_balance = Finite 0\<rparr>
   \<and> fst (get_summary (\<lambda>s. None) (ledger_init (Some [[''amount'' \<mapsto> PFloat (Finite 5)]])))
     = fst (get_summary (\<lambda>s. None)
         (ledger_init (Some [[''amount'' \<mapsto> PFloat (Finite 5), ''type'' \<mapsto> PStr ''Expense'']])))
   \<and> fst (get_summary (\<lambda>s. None) (ledger_init (Some [[''amount'' \<mapsto> PFloat (Finite 5)]])))
     = Inr \<lparr>total_income = Finite 0, total_expense = Finite 5, net_balance = Finite (- 5)\<rparr>
   \<and> fst (get_summary (\<lambda>s. None) (ledger_init (Some [[''type'' \<mapsto> PStr ''Income'']])))
     = fst (get_summary (\<lambda>s. None)
         (ledger_init (Some [[''type'' \<mapsto> PStr ''Income'', ''amount'' \<mapsto> PFloat (Finite 0)]])))
   \<and> fst (get_summary (\<lambda>s. None) (ledger_init (Some [[''type'' \<mapsto> PStr ''Income'']])))
     = Inr \<lparr>total_income = Finite 0, total_expense = Finite 0, net_balance = Finite 0\<rparr>
   \<and> has_kind ''Refund''
       (last (transactions (snd (add_transaction (ledger_init None) ''Refund'' (PFloat (Finite 5))
          ''Return'' ''Shop''))))"
  using
    summary_of_malformed_transactions [where
      tx = "[''type'' \<mapsto> PStr ''Refund'', ''amount'' \<mapsto> PFloat (Finite 5)]"
      and v = "PStr ''Refund''"
      and str_float = "\<lambda>s. None" and self = "ledger_init None" and pre = "[]" and post = "[]"
      and calls = "[]" and amount = "PFloat (Finite 5)" and type = "''Refund''"
      and description = "''Return''" and category = "''Shop''"]
    summary_of_malformed_transactions [where
      tx = "[''amount'' \<mapsto> PFloat (Finite 5)]" and str_float = "\<lambda>s. None"
      and self = "ledger_init None" and pre = "[]" and post = "[]"]
    summary_of_malformed_transactions [where
      tx = "[''type'' \<mapsto> PStr ''Income'']" and str_float = "\<lambda>s. None"
      and self = "ledger_init None" and pre = "[]" and post = "[]"]
  by (simp add: ledger_init_def get_summary_def dict_get_def round_double_examples)

text \<open>
  Claim C9 as stated fails in its last part: with no initial data at all,
  \<^verbatim>\<open>add_transaction("Refund", 5.0, "Return", "Shop")\<close> succeeds, the stored transaction has a
  type that is neither \<^verbatim>\<open>"Income"\<close> nor \<^verbatim>\<open>"Expense"\<close>, and the summary skips it.
\<close>

theorem add_stores_kind_outside_enumeration:
  "add_transaction (ledger_init None) ''Refund'' (PFloat (Finite 5)) ''Return'' ''Shop''
     = (Inr (transaction_of 1 ''Refund'' (PFloat (Finite 5)) ''Return'' ''Shop''),
        \<lparr>transactions = [transaction_of 1 ''Refund'' (PFloat (Finite 5)) ''Return'' ''Shop''],
         transaction_id_counter = 2\<rparr>)
   \<and> dict_get (transaction_of 1 ''Refund'' (PFloat (Finite 5)) ''Return'' ''Shop'') ''type''
        (PStr ''Expense'')
       = PStr ''Refund''
   \<and> PStr ''Refund'' \<noteq> PStr ''Income''
   \<and> PStr ''Refund'' \<noteq> PStr ''Expense''
   \<and> fst (get_summary (\<lambda>s. None)
        (snd (add_transaction (ledger_init None) ''Refund'' (PFloat (Finite 5)) ''Return''
           ''Shop'')))
       = Inr \<lparr>total_income = Finite 0, total_expense = Finite 0, net_balance = Finite 0\<rparr>"
  by (simp add: add_transaction_valid ledger_init_def get_summary_def dict_get_def
      transaction_of_def)

end
